theory Spec2Isabelle
  imports Main "HOL-Library.Word"
begin

section \<open>The Advion export shim \<open>advion_wrapper.cpp\<close>\<close>

text \<open>
  The file exports 48 functions with C linkage. Each body is one statement over the
  vendor's classes, whose code is not part of the repository: the vendor SDK and the
  C++ allocation functions are therefore parameters of the model (\<open>env\<close>), and every
  theorem holds for all of them. What the model fixes is what the shim's own text fixes:
  which vendor member is called, with which arguments, what is returned, and the meaning
  of the three C++ expressions \<open>new T(...)\<close>, \<open>new(std::nothrow) T(...)\<close> and
  \<open>delete p\<close>.
\<close>

subsection \<open>Values that cross the boundary\<close>

text \<open>
  A pointer is null or the address of an object. \<open>int\<close> is 32 bits wide; \<open>double\<close> and
  \<open>float\<close> are carried as their 64- and 32-bit patterns, since the shim does no
  arithmetic on them. The vendor's enumerations (\<open>ErrorCode\<close>, \<open>InstrumentSwitch\<close>,
  \<open>NumberReadback\<close>, ...) are declared in headers that are not in the repository; they
  are carried as their numeric encodings. A \<open>const char *\<close> argument is carried as the
  string it points to.
\<close>

datatype ptr = Null | Addr nat

datatype val =
    VUnit
  | VBool bool
  | VInt "32 word"
  | VDouble "64 word"
  | VFloat "32 word"
  | VEnum int
  | VStr string
  | VPtr ptr

datatype vendor_class =
    USBInstrument
  | SimulatedInstrument
  | Instrument
  | AcquisitionManager
  | InstrumentController
  | DataReader

text \<open>
  A fault is a C++ exception leaving a call: \<open>std::bad_alloc\<close> from the throwing
  allocation function, or whatever a vendor member throws.
\<close>

datatype fault = BadAlloc | VendorFault nat

text \<open>
  What a call of the shim does that can be seen from outside, in order: calls into the
  vendor SDK (class, member, arguments; the receiver of a member call is the first
  argument), and requests to the allocation and deallocation functions.
\<close>

datatype event =
    Call vendor_class string "val list"
  | Allocated vendor_class nat
  | AllocFailed vendor_class
  | Freed nat

text \<open>
  The environment: the vendor SDK as a function from a call and the process state \<open>'w\<close>
  to an outcome and the next state; \<open>operator new\<close>, which yields the address of fresh
  storage for an object of the class or fails; and \<open>operator delete\<close>.
\<close>

record 'w env =
  vendor :: "vendor_class \<Rightarrow> string \<Rightarrow> val list \<Rightarrow> 'w \<Rightarrow> (fault + val) \<times> 'w"
  operator_new :: "vendor_class \<Rightarrow> 'w \<Rightarrow> (nat \<times> 'w) option"
  operator_delete :: "nat \<Rightarrow> 'w \<Rightarrow> 'w"

text \<open>
  The outcome of running an exported function: the returned value or the fault that
  leaves it, the process state afterwards, and the events of the run.
\<close>

type_synonym 'w run = "(fault + val) \<times> 'w \<times> event list"

subsection \<open>The C++ expressions the shim is written in\<close>

text \<open>\<open>return C::m(args);\<close> and \<open>return p->m(args);\<close>\<close>

definition call_static :: "'w env \<Rightarrow> vendor_class \<Rightarrow> string \<Rightarrow> val list \<Rightarrow> 'w \<Rightarrow> 'w run" where
  "call_static env c m args w =
     (case vendor env c m args w of (r, w') \<Rightarrow> (r, w', [Call c m args]))"

definition call_method :: "'w env \<Rightarrow> vendor_class \<Rightarrow> ptr \<Rightarrow> string \<Rightarrow> val list \<Rightarrow> 'w \<Rightarrow> 'w run" where
  "call_method env c this m args w = call_static env c m (VPtr this # args) w"

text \<open>
  An expression statement \<open>p->m(args);\<close> in a function returning \<open>void\<close>: whatever the
  member yields is dropped; a fault still propagates.
\<close>

definition discard :: "'w run \<Rightarrow> 'w run" where
  "discard r = (case r of (Inl f, w, es) \<Rightarrow> (Inl f, w, es) | (Inr v, w, es) \<Rightarrow> (Inr VUnit, w, es))"

text \<open>
  \<open>new T(args)\<close>: the throwing allocation function is asked for storage and throws
  \<open>std::bad_alloc\<close> when there is none; otherwise the constructor runs on the storage,
  and if it throws the storage is given back and the exception propagates. The value of
  the expression is the address of the storage, which is never null.
\<close>

definition new_expr :: "'w env \<Rightarrow> vendor_class \<Rightarrow> val list \<Rightarrow> 'w \<Rightarrow> 'w run" where
  "new_expr env c args w =
     (case operator_new env c w of
        None \<Rightarrow> (Inl BadAlloc, w, [AllocFailed c])
      | Some (a, w1) \<Rightarrow>
          (case vendor env c ''<ctor>'' (VPtr (Addr a) # args) w1 of
             (Inl f, w2) \<Rightarrow>
               (Inl f, operator_delete env a w2,
                [Allocated c a, Call c ''<ctor>'' (VPtr (Addr a) # args), Freed a])
           | (Inr _, w2) \<Rightarrow>
               (Inr (VPtr (Addr a)), w2,
                [Allocated c a, Call c ''<ctor>'' (VPtr (Addr a) # args)])))"

text \<open>
  \<open>new(std::nothrow) T(args)\<close>: as above, but when there is no storage the allocation
  function returns null, the constructor is not called and the expression is null. An
  exception of the constructor still propagates.
\<close>

definition new_nothrow_expr :: "'w env \<Rightarrow> vendor_class \<Rightarrow> val list \<Rightarrow> 'w \<Rightarrow> 'w run" where
  "new_nothrow_expr env c args w =
     (case operator_new env c w of
        None \<Rightarrow> (Inr (VPtr Null), w, [AllocFailed c])
      | Some (a, w1) \<Rightarrow>
          (case vendor env c ''<ctor>'' (VPtr (Addr a) # args) w1 of
             (Inl f, w2) \<Rightarrow>
               (Inl f, operator_delete env a w2,
                [Allocated c a, Call c ''<ctor>'' (VPtr (Addr a) # args), Freed a])
           | (Inr _, w2) \<Rightarrow>
               (Inr (VPtr (Addr a)), w2,
                [Allocated c a, Call c ''<ctor>'' (VPtr (Addr a) # args)])))"

text \<open>
  \<open>delete p;\<close>: nothing happens for a null \<open>p\<close>; otherwise the destructor runs and the
  storage is given back, also when the destructor lets an exception out.
\<close>

definition delete_expr :: "'w env \<Rightarrow> vendor_class \<Rightarrow> ptr \<Rightarrow> 'w \<Rightarrow> 'w run" where
  "delete_expr env c p w =
     (case p of
        Null \<Rightarrow> (Inr VUnit, w, [])
      | Addr a \<Rightarrow>
          (case vendor env c ''<dtor>'' [VPtr (Addr a)] w of
             (Inl f, w1) \<Rightarrow>
               (Inl f, operator_delete env a w1,
                [Call c ''<dtor>'' [VPtr (Addr a)], Freed a])
           | (Inr _, w1) \<Rightarrow>
               (Inr VUnit, operator_delete env a w1,
                [Call c ''<dtor>'' [VPtr (Addr a)], Freed a])))"

subsection \<open>Instruments\<close>

text \<open>
  \<open>static_cast<Instrument *>\<close> of the pointer to the derived object names the same
  object, so it is the identity on \<open>ptr\<close>.
\<close>

definition usb_instrument :: "'w env \<Rightarrow> 'w \<Rightarrow> 'w run" where
  "usb_instrument env = new_expr env USBInstrument []"

definition simulated_instrument :: "'w env \<Rightarrow> string \<Rightarrow> 'w \<Rightarrow> 'w run" where
  "simulated_instrument env folder = new_expr env SimulatedInstrument [VStr folder]"

definition set_switch :: "'w env \<Rightarrow> ptr \<Rightarrow> int \<Rightarrow> bool \<Rightarrow> 'w \<Rightarrow> 'w run" where
  "set_switch env instrument swtch value w =
     discard (call_method env Instrument instrument ''setInstrumentSwitchOn''
                [VEnum swtch, VBool value] w)"

definition ignore_remaining_pumpdown_time :: "'w env \<Rightarrow> ptr \<Rightarrow> 'w \<Rightarrow> 'w run" where
  "ignore_remaining_pumpdown_time env instrument w =
     discard (call_method env Instrument instrument ''ignoreRemainingPumpDownTime'' [] w)"

definition get_pumpdown_remaining_seconds :: "'w env \<Rightarrow> ptr \<Rightarrow> 'w \<Rightarrow> 'w run" where
  "get_pumpdown_remaining_seconds env instrument =
     call_method env Instrument instrument ''getPumpDownRemainingSeconds'' []"

definition get_source :: "'w env \<Rightarrow> ptr \<Rightarrow> 'w \<Rightarrow> 'w run" where
  "get_source env instrument = call_method env Instrument instrument ''getSourceType'' []"

definition get_number_readback :: "'w env \<Rightarrow> ptr \<Rightarrow> int \<Rightarrow> 'w \<Rightarrow> 'w run" where
  "get_number_readback env instrument id' =
     call_method env Instrument instrument ''getNumberReadback'' [VEnum id']"

definition get_binary_readback :: "'w env \<Rightarrow> ptr \<Rightarrow> int \<Rightarrow> 'w \<Rightarrow> 'w run" where
  "get_binary_readback env instrument id' =
     call_method env Instrument instrument ''getBinaryReadback'' [VEnum id']"

subsection \<open>AcquisitionManager\<close>

definition start :: "'w env \<Rightarrow> string \<Rightarrow> string \<Rightarrow> string \<Rightarrow> string \<Rightarrow> string \<Rightarrow> 'w \<Rightarrow> 'w run" where
  "start env methodXML ionSourceXML tuneXML name folder =
     call_static env AcquisitionManager ''start''
       [VStr methodXML, VStr ionSourceXML, VStr tuneXML, VStr name, VStr folder]"

definition start_with_switching ::
  "'w env \<Rightarrow> string \<Rightarrow> string \<Rightarrow> string \<Rightarrow> string \<Rightarrow> string \<Rightarrow> string \<Rightarrow> string \<Rightarrow> 'w \<Rightarrow> 'w run" where
  "start_with_switching env methodXML ionSourceXML1 ionSourceXML2 tuneXML1 tuneXML2 name folder =
     call_static env AcquisitionManager ''startWithSwitching''
       [VStr methodXML, VStr ionSourceXML1, VStr ionSourceXML2,
        VStr tuneXML1, VStr tuneXML2, VStr name, VStr folder]"

definition stop :: "'w env \<Rightarrow> 'w \<Rightarrow> 'w run" where
  "stop env = call_static env AcquisitionManager ''stop'' []"

definition pause :: "'w env \<Rightarrow> 'w \<Rightarrow> 'w run" where
  "pause env = call_static env AcquisitionManager ''pause'' []"

definition resume :: "'w env \<Rightarrow> 'w \<Rightarrow> 'w run" where
  "resume env = call_static env AcquisitionManager ''resume'' []"

definition extend :: "'w env \<Rightarrow> 32 word \<Rightarrow> 'w \<Rightarrow> 'w run" where
  "extend env seconds = call_static env AcquisitionManager ''extend'' [VInt seconds]"

definition get_state :: "'w env \<Rightarrow> 'w \<Rightarrow> 'w run" where
  "get_state env = call_static env AcquisitionManager ''getState'' []"

definition get_current_folder :: "'w env \<Rightarrow> 'w \<Rightarrow> 'w run" where
  "get_current_folder env = call_static env AcquisitionManager ''getCurrentFolder'' []"

definition get_acquisition_bins_per_amu :: "'w env \<Rightarrow> 'w \<Rightarrow> 'w run" where
  "get_acquisition_bins_per_amu env =
     call_static env AcquisitionManager ''getAcquisitionBinsPerAMU'' []"

definition set_acquisition_bins_per_amu :: "'w env \<Rightarrow> 32 word \<Rightarrow> 'w \<Rightarrow> 'w run" where
  "set_acquisition_bins_per_amu env bins_per_amu =
     call_static env AcquisitionManager ''setAcquisitionBinsPerAMU'' [VInt bins_per_amu]"

definition get_last_num_masses :: "'w env \<Rightarrow> 'w \<Rightarrow> 'w run" where
  "get_last_num_masses env = call_static env AcquisitionManager ''getLastNumMasses'' []"

definition get_max_num_masses :: "'w env \<Rightarrow> 'w \<Rightarrow> 'w run" where
  "get_max_num_masses env = call_static env AcquisitionManager ''getMaxNumMasses'' []"

definition get_last_spectrum_masses :: "'w env \<Rightarrow> ptr \<Rightarrow> 'w \<Rightarrow> 'w run" where
  "get_last_spectrum_masses env buff =
     call_static env AcquisitionManager ''getLastSpectrumMasses'' [VPtr buff]"

definition get_last_spectrum_intensities :: "'w env \<Rightarrow> ptr \<Rightarrow> 'w \<Rightarrow> 'w run" where
  "get_last_spectrum_intensities env buff =
     call_static env AcquisitionManager ''getLastSpectrumIntensities'' [VPtr buff]"

subsection \<open>InstrumentController\<close>

definition start_controller :: "'w env \<Rightarrow> ptr \<Rightarrow> 'w \<Rightarrow> 'w run" where
  "start_controller env instrument =
     call_static env InstrumentController ''startController'' [VPtr instrument]"

definition stop_controller :: "'w env \<Rightarrow> 'w \<Rightarrow> 'w run" where
  "stop_controller env = call_static env InstrumentController ''stopController'' []"

definition can_vent :: "'w env \<Rightarrow> 'w \<Rightarrow> 'w run" where
  "can_vent env = call_static env InstrumentController ''canVent'' []"

definition vent :: "'w env \<Rightarrow> 'w \<Rightarrow> 'w run" where
  "vent env = call_static env InstrumentController ''vent'' []"

definition can_pump_down :: "'w env \<Rightarrow> 'w \<Rightarrow> 'w run" where
  "can_pump_down env = call_static env InstrumentController ''canPumpDown'' []"

definition pump_down :: "'w env \<Rightarrow> 'w \<Rightarrow> 'w run" where
  "pump_down env = call_static env InstrumentController ''pumpDown'' []"

definition get_instrument_state :: "'w env \<Rightarrow> 'w \<Rightarrow> 'w run" where
  "get_instrument_state env = call_static env InstrumentController ''getState'' []"

definition get_operation_mode :: "'w env \<Rightarrow> 'w \<Rightarrow> 'w run" where
  "get_operation_mode env = call_static env InstrumentController ''getOperationMode'' []"

definition can_operate :: "'w env \<Rightarrow> 'w \<Rightarrow> 'w run" where
  "can_operate env = call_static env InstrumentController ''canOperate'' []"

definition operate :: "'w env \<Rightarrow> 'w \<Rightarrow> 'w run" where
  "operate env = call_static env InstrumentController ''operate'' []"

definition standby :: "'w env \<Rightarrow> 'w \<Rightarrow> 'w run" where
  "standby env = call_static env InstrumentController ''standby'' []"

definition can_standby :: "'w env \<Rightarrow> 'w \<Rightarrow> 'w run" where
  "can_standby env = call_static env InstrumentController ''canStandby'' []"

definition get_tune_parameters :: "'w env \<Rightarrow> 'w \<Rightarrow> 'w run" where
  "get_tune_parameters env = call_static env InstrumentController ''getTuneParameters'' []"

definition set_tune_parameters :: "'w env \<Rightarrow> string \<Rightarrow> 'w \<Rightarrow> 'w run" where
  "set_tune_parameters env tune_xml =
     call_static env InstrumentController ''setTuneParameters'' [VStr tune_xml]"

definition get_ion_source_optimization :: "'w env \<Rightarrow> 'w \<Rightarrow> 'w run" where
  "get_ion_source_optimization env =
     call_static env InstrumentController ''getIonSourceOptimization'' []"

definition set_ion_source_optimization :: "'w env \<Rightarrow> string \<Rightarrow> 'w \<Rightarrow> 'w run" where
  "set_ion_source_optimization env ion_source_xml =
     call_static env InstrumentController ''setIonSourceOptimization'' [VStr ion_source_xml]"

subsection \<open>Data processing: the reader's lifetime\<close>

definition make_reader :: "'w env \<Rightarrow> string \<Rightarrow> bool \<Rightarrow> bool \<Rightarrow> 'w \<Rightarrow> 'w run" where
  "make_reader env path debugOutput decodeSpectra =
     new_nothrow_expr env DataReader [VStr path, VBool debugOutput, VBool decodeSpectra]"

definition free_reader :: "'w env \<Rightarrow> ptr \<Rightarrow> 'w \<Rightarrow> 'w run" where
  "free_reader env dr = delete_expr env DataReader dr"

subsection \<open>Data processing: reading\<close>

definition get_delta_background_spectrum :: "'w env \<Rightarrow> ptr \<Rightarrow> ptr \<Rightarrow> 'w \<Rightarrow> 'w run" where
  "get_delta_background_spectrum env dr intensities =
     call_method env DataReader dr ''getDeltaBackgroundSpectrum'' [VPtr intensities]"

definition get_delta_spectrum :: "'w env \<Rightarrow> ptr \<Rightarrow> 32 word \<Rightarrow> ptr \<Rightarrow> 'w \<Rightarrow> 'w run" where
  "get_delta_spectrum env dr index intensities =
     call_method env DataReader dr ''getDeltaSpectrum'' [VInt index, VPtr intensities]"

definition get_spectrum :: "'w env \<Rightarrow> ptr \<Rightarrow> 32 word \<Rightarrow> ptr \<Rightarrow> 'w \<Rightarrow> 'w run" where
  "get_spectrum env dr index intensities =
     call_method env DataReader dr ''getSpectrum'' [VInt index, VPtr intensities]"

definition get_masses :: "'w env \<Rightarrow> ptr \<Rightarrow> ptr \<Rightarrow> 'w \<Rightarrow> 'w run" where
  "get_masses env dr masses = call_method env DataReader dr ''getMasses'' [VPtr masses]"

definition num_masses :: "'w env \<Rightarrow> ptr \<Rightarrow> 'w \<Rightarrow> 'w run" where
  "num_masses env dr = call_method env DataReader dr ''getNumMasses'' []"

definition num_spectra :: "'w env \<Rightarrow> ptr \<Rightarrow> 'w \<Rightarrow> 'w run" where
  "num_spectra env dr = call_method env DataReader dr ''getNumSpectra'' []"

definition retention_times :: "'w env \<Rightarrow> ptr \<Rightarrow> ptr \<Rightarrow> 'w \<Rightarrow> 'w run" where
  "retention_times env dr times' = call_method env DataReader dr ''getRetentionTimes'' [VPtr times']"

definition get_TIC :: "'w env \<Rightarrow> ptr \<Rightarrow> 32 word \<Rightarrow> 'w \<Rightarrow> 'w run" where
  "get_TIC env dr index = call_method env DataReader dr ''getTIC'' [VInt index]"

subsection \<open>The export table\<close>

text \<open>
  One constructor for each exported function, with its parameters in the order of the
  C signature; \<open>exec\<close> runs the function a call names, and \<open>params\<close> lists the values
  the caller passed.
\<close>

datatype export_call =
    Usb_instrument
  | Simulated_instrument string
  | Set_switch ptr int bool
  | Ignore_remaining_pumpdown_time ptr
  | Get_pumpdown_remaining_seconds ptr
  | Get_source ptr
  | Get_number_readback ptr int
  | Get_binary_readback ptr int
  | Start string string string string string
  | Start_with_switching string string string string string string string
  | Stop
  | Pause
  | Resume
  | Extend "32 word"
  | Get_state
  | Get_current_folder
  | Get_acquisition_bins_per_amu
  | Set_acquisition_bins_per_amu "32 word"
  | Get_last_num_masses
  | Get_max_num_masses
  | Get_last_spectrum_masses ptr
  | Get_last_spectrum_intensities ptr
  | Start_controller ptr
  | Stop_controller
  | Can_vent
  | Vent
  | Can_pump_down
  | Pump_down
  | Get_instrument_state
  | Get_operation_mode
  | Can_operate
  | Operate
  | Standby
  | Can_standby
  | Get_tune_parameters
  | Set_tune_parameters string
  | Get_ion_source_optimization
  | Set_ion_source_optimization string
  | Make_reader string bool bool
  | Free_reader ptr
  | Get_delta_background_spectrum ptr ptr
  | Get_delta_spectrum ptr "32 word" ptr
  | Get_spectrum ptr "32 word" ptr
  | Get_masses ptr ptr
  | Num_masses ptr
  | Num_spectra ptr
  | Retention_times ptr ptr
  | Get_TIC ptr "32 word"

primrec exec :: "'w env \<Rightarrow> export_call \<Rightarrow> 'w \<Rightarrow> 'w run" where
  "exec env Usb_instrument = usb_instrument env"
| "exec env (Simulated_instrument folder) = simulated_instrument env folder"
| "exec env (Set_switch instrument swtch value) = set_switch env instrument swtch value"
| "exec env (Ignore_remaining_pumpdown_time instrument) = ignore_remaining_pumpdown_time env instrument"
| "exec env (Get_pumpdown_remaining_seconds instrument) = get_pumpdown_remaining_seconds env instrument"
| "exec env (Get_source instrument) = get_source env instrument"
| "exec env (Get_number_readback instrument i) = get_number_readback env instrument i"
| "exec env (Get_binary_readback instrument i) = get_binary_readback env instrument i"
| "exec env (Start methodXML ionSourceXML tuneXML name folder) =
     start env methodXML ionSourceXML tuneXML name folder"
| "exec env (Start_with_switching methodXML ionSourceXML1 ionSourceXML2 tuneXML1 tuneXML2 name folder) =
     start_with_switching env methodXML ionSourceXML1 ionSourceXML2 tuneXML1 tuneXML2 name folder"
| "exec env Stop = stop env"
| "exec env Pause = pause env"
| "exec env Resume = resume env"
| "exec env (Extend seconds) = extend env seconds"
| "exec env Get_state = get_state env"
| "exec env Get_current_folder = get_current_folder env"
| "exec env Get_acquisition_bins_per_amu = get_acquisition_bins_per_amu env"
| "exec env (Set_acquisition_bins_per_amu bins_per_amu) = set_acquisition_bins_per_amu env bins_per_amu"
| "exec env Get_last_num_masses = get_last_num_masses env"
| "exec env Get_max_num_masses = get_max_num_masses env"
| "exec env (Get_last_spectrum_masses buff) = get_last_spectrum_masses env buff"
| "exec env (Get_last_spectrum_intensities buff) = get_last_spectrum_intensities env buff"
| "exec env (Start_controller instrument) = start_controller env instrument"
| "exec env Stop_controller = stop_controller env"
| "exec env Can_vent = can_vent env"
| "exec env Vent = vent env"
| "exec env Can_pump_down = can_pump_down env"
| "exec env Pump_down = pump_down env"
| "exec env Get_instrument_state = get_instrument_state env"
| "exec env Get_operation_mode = get_operation_mode env"
| "exec env Can_operate = can_operate env"
| "exec env Operate = operate env"
| "exec env Standby = standby env"
| "exec env Can_standby = can_standby env"
| "exec env Get_tune_parameters = get_tune_parameters env"
| "exec env (Set_tune_parameters tune_xml) = set_tune_parameters env tune_xml"
| "exec env Get_ion_source_optimization = get_ion_source_optimization env"
| "exec env (Set_ion_source_optimization ion_source_xml) = set_ion_source_optimization env ion_source_xml"
| "exec env (Make_reader path debugOutput decodeSpectra) = make_reader env path debugOutput decodeSpectra"
| "exec env (Free_reader dr) = free_reader env dr"
| "exec env (Get_delta_background_spectrum dr intensities) = get_delta_background_spectrum env dr intensities"
| "exec env (Get_delta_spectrum dr index intensities) = get_delta_spectrum env dr index intensities"
| "exec env (Get_spectrum dr index intensities) = get_spectrum env dr index intensities"
| "exec env (Get_masses dr masses) = get_masses env dr masses"
| "exec env (Num_masses dr) = num_masses env dr"
| "exec env (Num_spectra dr) = num_spectra env dr"
| "exec env (Retention_times dr times') = retention_times env dr times'"
| "exec env (Get_TIC dr index) = get_TIC env dr index"

primrec params :: "export_call \<Rightarrow> val list" where
  "params Usb_instrument = []"
| "params (Simulated_instrument folder) = [VStr folder]"
| "params (Set_switch instrument swtch value) = [VPtr instrument, VEnum swtch, VBool value]"
| "params (Ignore_remaining_pumpdown_time instrument) = [VPtr instrument]"
| "params (Get_pumpdown_remaining_seconds instrument) = [VPtr instrument]"
| "params (Get_source instrument) = [VPtr instrument]"
| "params (Get_number_readback instrument i) = [VPtr instrument, VEnum i]"
| "params (Get_binary_readback instrument i) = [VPtr instrument, VEnum i]"
| "params (Start methodXML ionSourceXML tuneXML name folder) =
     [VStr methodXML, VStr ionSourceXML, VStr tuneXML, VStr name, VStr folder]"
| "params (Start_with_switching methodXML ionSourceXML1 ionSourceXML2 tuneXML1 tuneXML2 name folder) =
     [VStr methodXML, VStr ionSourceXML1, VStr ionSourceXML2, VStr tuneXML1, VStr tuneXML2,
      VStr name, VStr folder]"
| "params Stop = []"
| "params Pause = []"
| "params Resume = []"
| "params (Extend seconds) = [VInt seconds]"
| "params Get_state = []"
| "params Get_current_folder = []"
| "params Get_acquisition_bins_per_amu = []"
| "params (Set_acquisition_bins_per_amu bins_per_amu) = [VInt bins_per_amu]"
| "params Get_last_num_masses = []"
| "params Get_max_num_masses = []"
| "params (Get_last_spectrum_masses buff) = [VPtr buff]"
| "params (Get_last_spectrum_intensities buff) = [VPtr buff]"
| "params (Start_controller instrument) = [VPtr instrument]"
| "params Stop_controller = []"
| "params Can_vent = []"
| "params Vent = []"
| "params Can_pump_down = []"
| "params Pump_down = []"
| "params Get_instrument_state = []"
| "params Get_operation_mode = []"
| "params Can_operate = []"
| "params Operate = []"
| "params Standby = []"
| "params Can_standby = []"
| "params Get_tune_parameters = []"
| "params (Set_tune_parameters tune_xml) = [VStr tune_xml]"
| "params Get_ion_source_optimization = []"
| "params (Set_ion_source_optimization ion_source_xml) = [VStr ion_source_xml]"
| "params (Make_reader path debugOutput decodeSpectra) = [VStr path, VBool debugOutput, VBool decodeSpectra]"
| "params (Free_reader dr) = [VPtr dr]"
| "params (Get_delta_background_spectrum dr intensities) = [VPtr dr, VPtr intensities]"
| "params (Get_delta_spectrum dr index intensities) = [VPtr dr, VInt index, VPtr intensities]"
| "params (Get_spectrum dr index intensities) = [VPtr dr, VInt index, VPtr intensities]"
| "params (Get_masses dr masses) = [VPtr dr, VPtr masses]"
| "params (Num_masses dr) = [VPtr dr]"
| "params (Num_spectra dr) = [VPtr dr]"
| "params (Retention_times dr times') = [VPtr dr, VPtr times']"
| "params (Get_TIC dr index) = [VPtr dr, VInt index]"

text \<open>
  The exports whose body is an allocation or a deallocation, and the exports declared
  \<open>void\<close>.
\<close>

definition manages_storage :: "export_call \<Rightarrow> bool" where
  "manages_storage c =
     (case c of
        Usb_instrument \<Rightarrow> True
      | Simulated_instrument _ \<Rightarrow> True
      | Make_reader _ _ _ \<Rightarrow> True
      | Free_reader _ \<Rightarrow> True
      | _ \<Rightarrow> False)"

definition returns_void :: "export_call \<Rightarrow> bool" where
  "returns_void c =
     (case c of
        Set_switch _ _ _ \<Rightarrow> True
      | Ignore_remaining_pumpdown_time _ \<Rightarrow> True
      | Free_reader _ \<Rightarrow> True
      | _ \<Rightarrow> False)"

subsection \<open>Forwarding and absorption as predicates on runs\<close>

text \<open>
  The vendor member that corresponds to each exported function: the member of the
  vendor class that carries out the operation the export is named after. For the
  factories it is the constructor of the class they make, for \<open>free_reader\<close> the
  destructor of \<open>DataReader\<close>.
\<close>

primrec corresponding_member :: "export_call \<Rightarrow> vendor_class \<times> string" where
  "corresponding_member Usb_instrument = (USBInstrument, ''<ctor>'')"
| "corresponding_member (Simulated_instrument folder) = (SimulatedInstrument, ''<ctor>'')"
| "corresponding_member (Set_switch instrument swtch value) = (Instrument, ''setInstrumentSwitchOn'')"
| "corresponding_member (Ignore_remaining_pumpdown_time instrument) =
     (Instrument, ''ignoreRemainingPumpDownTime'')"
| "corresponding_member (Get_pumpdown_remaining_seconds instrument) =
     (Instrument, ''getPumpDownRemainingSeconds'')"
| "corresponding_member (Get_source instrument) = (Instrument, ''getSourceType'')"
| "corresponding_member (Get_number_readback instrument i) = (Instrument, ''getNumberReadback'')"
| "corresponding_member (Get_binary_readback instrument i) = (Instrument, ''getBinaryReadback'')"
| "corresponding_member (Start methodXML ionSourceXML tuneXML name folder) =
     (AcquisitionManager, ''start'')"
| "corresponding_member
     (Start_with_switching methodXML ionSourceXML1 ionSourceXML2 tuneXML1 tuneXML2 name folder) =
     (AcquisitionManager, ''startWithSwitching'')"
| "corresponding_member Stop = (AcquisitionManager, ''stop'')"
| "corresponding_member Pause = (AcquisitionManager, ''pause'')"
| "corresponding_member Resume = (AcquisitionManager, ''resume'')"
| "corresponding_member (Extend seconds) = (AcquisitionManager, ''extend'')"
| "corresponding_member Get_state = (AcquisitionManager, ''getState'')"
| "corresponding_member Get_current_folder = (AcquisitionManager, ''getCurrentFolder'')"
| "corresponding_member Get_acquisition_bins_per_amu =
     (AcquisitionManager, ''getAcquisitionBinsPerAMU'')"
| "corresponding_member (Set_acquisition_bins_per_amu bins_per_amu) =
     (AcquisitionManager, ''setAcquisitionBinsPerAMU'')"
| "corresponding_member Get_last_num_masses = (AcquisitionManager, ''getLastNumMasses'')"
| "corresponding_member Get_max_num_masses = (AcquisitionManager, ''getMaxNumMasses'')"
| "corresponding_member (Get_last_spectrum_masses buff) =
     (AcquisitionManager, ''getLastSpectrumMasses'')"
| "corresponding_member (Get_last_spectrum_intensities buff) =
     (AcquisitionManager, ''getLastSpectrumIntensities'')"
| "corresponding_member (Start_controller instrument) = (InstrumentController, ''startController'')"
| "corresponding_member Stop_controller = (InstrumentController, ''stopController'')"
| "corresponding_member Can_vent = (InstrumentController, ''canVent'')"
| "corresponding_member Vent = (InstrumentController, ''vent'')"
| "corresponding_member Can_pump_down = (InstrumentController, ''canPumpDown'')"
| "corresponding_member Pump_down = (InstrumentController, ''pumpDown'')"
| "corresponding_member Get_instrument_state = (InstrumentController, ''getState'')"
| "corresponding_member Get_operation_mode = (InstrumentController, ''getOperationMode'')"
| "corresponding_member Can_operate = (InstrumentController, ''canOperate'')"
| "corresponding_member Operate = (InstrumentController, ''operate'')"
| "corresponding_member Standby = (InstrumentController, ''standby'')"
| "corresponding_member Can_standby = (InstrumentController, ''canStandby'')"
| "corresponding_member Get_tune_parameters = (InstrumentController, ''getTuneParameters'')"
| "corresponding_member (Set_tune_parameters tune_xml) = (InstrumentController, ''setTuneParameters'')"
| "corresponding_member Get_ion_source_optimization =
     (InstrumentController, ''getIonSourceOptimization'')"
| "corresponding_member (Set_ion_source_optimization ion_source_xml) =
     (InstrumentController, ''setIonSourceOptimization'')"
| "corresponding_member (Make_reader path debugOutput decodeSpectra) = (DataReader, ''<ctor>'')"
| "corresponding_member (Free_reader dr) = (DataReader, ''<dtor>'')"
| "corresponding_member (Get_delta_background_spectrum dr intensities) =
     (DataReader, ''getDeltaBackgroundSpectrum'')"
| "corresponding_member (Get_delta_spectrum dr index intensities) = (DataReader, ''getDeltaSpectrum'')"
| "corresponding_member (Get_spectrum dr index intensities) = (DataReader, ''getSpectrum'')"
| "corresponding_member (Get_masses dr masses) = (DataReader, ''getMasses'')"
| "corresponding_member (Num_masses dr) = (DataReader, ''getNumMasses'')"
| "corresponding_member (Num_spectra dr) = (DataReader, ''getNumSpectra'')"
| "corresponding_member (Retention_times dr times') = (DataReader, ''getRetentionTimes'')"
| "corresponding_member (Get_TIC dr index) = (DataReader, ''getTIC'')"

text \<open>
  A call forwards when its corresponding member belongs to one of the four vendor
  classes and its run is exactly this: that member is called once, on the caller's
  arguments unchanged and in order; nothing else happens, so the state afterwards is the
  state that call left; and what is returned is what that call returned (nothing, when
  the export is declared \<open>void\<close>).
\<close>

definition returned :: "export_call \<Rightarrow> fault + val \<Rightarrow> fault + val" where
  "returned c r =
     (if returns_void c then (case r of Inl f \<Rightarrow> Inl f | Inr _ \<Rightarrow> Inr VUnit) else r)"

definition forwards :: "'w env \<Rightarrow> export_call \<Rightarrow> 'w \<Rightarrow> bool" where
  "forwards env c w =
     (case corresponding_member c of
        (cls, m) \<Rightarrow>
          cls \<in> set [Instrument, AcquisitionManager, InstrumentController, DataReader]
          \<and> (case vendor env cls m (params c) w of
               (r0, w0) \<Rightarrow> exec env c w = (returned c r0, w0, [Call cls m (params c)])))"

text \<open>
  A run absorbs an allocation failure when the allocation function failed during it and
  the export returned normally all the same.
\<close>

definition is_alloc_failure :: "event \<Rightarrow> bool" where
  "is_alloc_failure e = (case e of AllocFailed _ \<Rightarrow> True | _ \<Rightarrow> False)"

definition absorbs_alloc_failure :: "'w env \<Rightarrow> export_call \<Rightarrow> 'w \<Rightarrow> bool" where
  "absorbs_alloc_failure env c w =
     (case exec env c w of
        (Inl _, _, _) \<Rightarrow> False
      | (Inr _, _, es) \<Rightarrow> list_ex is_alloc_failure es)"

definition is_make_reader :: "export_call \<Rightarrow> bool" where
  "is_make_reader c = (case c of Make_reader _ _ _ \<Rightarrow> True | _ \<Rightarrow> False)"

subsection \<open>Sample environments\<close>

text \<open>
  Concrete environments on which the shim is evaluated. They stand for no particular
  SDK: the process state holds the files that exist and a free store that hands out
  consecutive addresses while room is left. \<open>quiet_vendor\<close> returns the encoding 0
  from every member; \<open>strict_vendor\<close> differs in that the \<open>DataReader\<close> constructor
  throws when the path names no existing file.
\<close>

datatype process =
  Process (files: "string list") (storage_left: nat) (next_addr: nat)

definition bump_new :: "vendor_class \<Rightarrow> process \<Rightarrow> (nat \<times> process) option" where
  "bump_new c w =
     (if storage_left w = 0 then None
      else Some (next_addr w, Process (files w) (storage_left w - 1) (Suc (next_addr w))))"

definition bump_delete :: "nat \<Rightarrow> process \<Rightarrow> process" where
  "bump_delete a w = Process (files w) (Suc (storage_left w)) (next_addr w)"

definition quiet_vendor :: "vendor_class \<Rightarrow> string \<Rightarrow> val list \<Rightarrow> process \<Rightarrow> (fault + val) \<times> process" where
  "quiet_vendor c m args w = (Inr (VEnum 0), w)"

definition strict_vendor :: "vendor_class \<Rightarrow> string \<Rightarrow> val list \<Rightarrow> process \<Rightarrow> (fault + val) \<times> process" where
  "strict_vendor c m args w =
     (case (c, args) of
        (DataReader, [this, VStr path, debugOutput, decodeSpectra]) \<Rightarrow>
          (if m = ''<ctor>'' \<and> path \<notin> set (files w) then (Inl (VendorFault 2), w)
           else (Inr VUnit, w))
      | _ \<Rightarrow> (Inr (VEnum 0), w))"

definition quiet_env :: "process env" where
  "quiet_env = \<lparr>vendor = quiet_vendor, operator_new = bump_new, operator_delete = bump_delete\<rparr>"

definition strict_env :: "process env" where
  "strict_env = \<lparr>vendor = strict_vendor, operator_new = bump_new, operator_delete = bump_delete\<rparr>"

definition w_room :: process where
  "w_room = Process [''run1.datx''] 4 1"

definition w_full :: process where
  "w_full = Process [''run1.datx''] 0 1"

section \<open>Properties\<close>

lemmas export_defs =
  usb_instrument_def simulated_instrument_def set_switch_def ignore_remaining_pumpdown_time_def
  get_pumpdown_remaining_seconds_def get_source_def get_number_readback_def get_binary_readback_def
  start_def start_with_switching_def stop_def pause_def resume_def extend_def get_state_def
  get_current_folder_def get_acquisition_bins_per_amu_def set_acquisition_bins_per_amu_def
  get_last_num_masses_def get_max_num_masses_def get_last_spectrum_masses_def
  get_last_spectrum_intensities_def start_controller_def stop_controller_def can_vent_def vent_def
  can_pump_down_def pump_down_def get_instrument_state_def get_operation_mode_def can_operate_def
  operate_def standby_def can_standby_def get_tune_parameters_def set_tune_parameters_def
  get_ion_source_optimization_def set_ion_source_optimization_def make_reader_def free_reader_def
  get_delta_background_spectrum_def get_delta_spectrum_def get_spectrum_def get_masses_def
  num_masses_def num_spectra_def retention_times_def get_TIC_def

lemmas sample_defs =
  quiet_env_def strict_env_def quiet_vendor_def strict_vendor_def bump_new_def bump_delete_def
  w_room_def w_full_def

subsection \<open>Forwarding\<close>

text \<open>
  C1, as stated: every exported operation forwards its arguments to exactly one
  corresponding call of a member of \<open>AcquisitionManager\<close>, \<open>InstrumentController\<close>,
  \<open>Instrument\<close> or \<open>DataReader\<close> and returns its result, doing nothing else. It fails
  for \<open>free_reader\<close> on a null pointer, which calls nothing at all.
\<close>

theorem free_reader_null_forwards_nothing:
  "\<not> forwards quiet_env (Free_reader Null) w_room"
  by (simp add: forwards_def free_reader_def delete_expr_def split: prod.splits)

text \<open>
  C1, amended: for every exported operation other than \<open>usb_instrument\<close>,
  \<open>simulated_instrument\<close>, \<open>make_reader\<close> and \<open>free_reader\<close>, a call forwards its
  arguments unchanged and in order to exactly one corresponding vendor SDK call (a
  member of \<open>AcquisitionManager\<close>, \<open>InstrumentController\<close>, \<open>Instrument\<close> or
  \<open>DataReader\<close>) and returns that call's result unchanged (nothing, for the two such
  exports declared \<open>void\<close>), with no other computation or state change; no call of the
  four excepted operations does.
\<close>

theorem exports_forward:
  "forwards env c w = (\<not> manages_storage c)"
  by (cases c)
     (simp_all add: forwards_def manages_storage_def returned_def returns_void_def discard_def
        export_defs call_static_def call_method_def new_expr_def new_nothrow_expr_def
        delete_expr_def split: prod.splits sum.splits option.splits ptr.splits)

theorem exports_forward_witness:
  "\<not> manages_storage (Get_spectrum (Addr 7) 3 (Addr 9))
   \<and> forwards strict_env (Get_spectrum (Addr 7) 3 (Addr 9)) w_room
   \<and> manages_storage (Free_reader (Addr 7))
   \<and> \<not> forwards strict_env (Free_reader (Addr 7)) w_room"
  using exports_forward [of strict_env "Get_spectrum (Addr 7) 3 (Addr 9)" w_room]
    exports_forward [of strict_env "Free_reader (Addr 7)" w_room]
  by (simp add: manages_storage_def)

subsection \<open>The reader's lifetime\<close>

text \<open>
  C2. Whatever the path and the two flags, when storage for the \<open>DataReader\<close> cannot be
  allocated \<open>make_reader\<close> returns a null handle and lets no fault out; and a run of an
  exported function absorbs an allocation failure only if the function is
  \<open>make_reader\<close>.
\<close>

theorem make_reader_absorbs_allocation_failure:
  "(operator_new env DataReader w = None \<longrightarrow>
      make_reader env path debugOutput decodeSpectra w
        = (Inr (VPtr Null), w, [AllocFailed DataReader]))
   \<and> absorbs_alloc_failure env c w
       = (is_make_reader c \<and> operator_new env DataReader w = None)"
proof
  show "operator_new env DataReader w = None \<longrightarrow>
      make_reader env path debugOutput decodeSpectra w
        = (Inr (VPtr Null), w, [AllocFailed DataReader])"
    by (simp add: make_reader_def new_nothrow_expr_def)
  show "absorbs_alloc_failure env c w
       = (is_make_reader c \<and> operator_new env DataReader w = None)"
    by (cases c)
       (simp_all add: absorbs_alloc_failure_def is_make_reader_def is_alloc_failure_def
          discard_def export_defs call_static_def call_method_def new_expr_def
          new_nothrow_expr_def delete_expr_def
          split: prod.splits sum.splits option.splits ptr.splits)
qed

theorem make_reader_absorbs_allocation_failure_witness:
  "operator_new quiet_env DataReader w_full = None
   \<and> make_reader quiet_env ''run1.datx'' True False w_full
       = (Inr (VPtr Null), w_full, [AllocFailed DataReader])
   \<and> absorbs_alloc_failure quiet_env (Make_reader ''run1.datx'' True False) w_full"
  using make_reader_absorbs_allocation_failure
          [of quiet_env w_full "''run1.datx''" True False "Make_reader ''run1.datx'' True False"]
  by (simp add: sample_defs is_make_reader_def)

text \<open>
  C3, as stated: for a path that names no existing file \<open>make_reader\<close> returns a null
  handle and does not crash. With room in the free store it returns the address of the
  new object when the constructor returns, and lets the constructor's exception out
  when it throws; in neither case a null handle.
\<close>

theorem make_reader_missing_file_not_null:
  "''missing.datx'' \<notin> set (files w_room)
   \<and> fst (make_reader quiet_env ''missing.datx'' False False w_room) = Inr (VPtr (Addr 1))
   \<and> fst (make_reader strict_env ''missing.datx'' False False w_room) = Inl (VendorFault 2)"
  by (simp add: make_reader_def new_nothrow_expr_def sample_defs)

text \<open>
  C3, amended: \<open>make_reader\<close> returns a null handle exactly when storage for the
  \<open>DataReader\<close> cannot be allocated, whatever the path names; otherwise it returns the
  (non-null) address of the storage if the constructor returns, and the constructor's
  fault propagates if it throws.
\<close>

theorem make_reader_null_iff_no_storage:
  "(fst (make_reader env path debugOutput decodeSpectra w) = Inr (VPtr Null))
     = (operator_new env DataReader w = None)
   \<and> fst (make_reader env path debugOutput decodeSpectra w)
       = (case operator_new env DataReader w of
            None \<Rightarrow> Inr (VPtr Null)
          | Some (a, w1) \<Rightarrow>
              (case fst (vendor env DataReader ''<ctor>''
                           [VPtr (Addr a), VStr path, VBool debugOutput, VBool decodeSpectra] w1) of
                 Inl f \<Rightarrow> Inl f
               | Inr _ \<Rightarrow> Inr (VPtr (Addr a))))"
  by (simp add: make_reader_def new_nothrow_expr_def split: option.splits prod.splits sum.splits)

text \<open>
  C4. Calling \<open>free_reader\<close> with a null pointer is a safe no-op: it returns normally,
  leaves the process state as it was, calls nothing in the vendor SDK and gives no
  storage back.
\<close>

theorem free_reader_null_noop:
  "free_reader env Null w = (Inr VUnit, w, [])"
  by (simp add: free_reader_def delete_expr_def)

subsection \<open>The instrument factories\<close>

text \<open>
  C9, as stated: an allocation failure in \<open>usb_instrument\<close> or \<open>simulated_instrument\<close>
  is not reported to the caller, who is returned the pointer. With the free store
  exhausted neither function returns anything: \<open>std::bad_alloc\<close> reaches the caller.
\<close>

theorem instrument_factories_report_failure:
  "operator_new quiet_env USBInstrument w_full = None
   \<and> usb_instrument quiet_env w_full = (Inl BadAlloc, w_full, [AllocFailed USBInstrument])
   \<and> operator_new quiet_env SimulatedInstrument w_full = None
   \<and> simulated_instrument quiet_env ''recorded'' w_full
       = (Inl BadAlloc, w_full, [AllocFailed SimulatedInstrument])"
  by (simp add: usb_instrument_def simulated_instrument_def new_expr_def sample_defs)

text \<open>
  C9, amended: \<open>usb_instrument\<close> and \<open>simulated_instrument\<close> perform no null-check and
  add no error value of their own: when allocation and construction succeed they return
  the allocated pointer unchanged, a fault of the constructor propagates, and when the
  allocation fails \<open>std::bad_alloc\<close> propagates to the caller and no pointer is returned.
\<close>

theorem instrument_factories_outcome:
  "fst (usb_instrument env w)
     = (case operator_new env USBInstrument w of
          None \<Rightarrow> Inl BadAlloc
        | Some (a, w1) \<Rightarrow>
            (case fst (vendor env USBInstrument ''<ctor>'' [VPtr (Addr a)] w1) of
               Inl f \<Rightarrow> Inl f
             | Inr _ \<Rightarrow> Inr (VPtr (Addr a))))
   \<and> fst (simulated_instrument env folder w)
       = (case operator_new env SimulatedInstrument w of
            None \<Rightarrow> Inl BadAlloc
          | Some (a, w1) \<Rightarrow>
              (case fst (vendor env SimulatedInstrument ''<ctor>'' [VPtr (Addr a), VStr folder] w1) of
                 Inl f \<Rightarrow> Inl f
               | Inr _ \<Rightarrow> Inr (VPtr (Addr a))))"
  by (simp add: usb_instrument_def simulated_instrument_def new_expr_def
           split: option.splits prod.splits sum.splits)

text \<open>
  C10. \<open>usb_instrument\<close> and \<open>simulated_instrument\<close> never return a null handle: when
  the allocation fails, \<open>std::bad_alloc\<close> leaves the function, whereas \<open>make_reader\<close>,
  which allocates with \<open>std::nothrow\<close>, returns null.
\<close>

theorem instrument_factories_never_null:
  "fst (usb_instrument env w) \<noteq> Inr (VPtr Null)
   \<and> fst (simulated_instrument env folder w) \<noteq> Inr (VPtr Null)
   \<and> (operator_new env USBInstrument w = None \<longrightarrow> fst (usb_instrument env w) = Inl BadAlloc)
   \<and> (operator_new env SimulatedInstrument w = None \<longrightarrow>
        fst (simulated_instrument env folder w) = Inl BadAlloc)
   \<and> (operator_new env DataReader w = None \<longrightarrow>
        fst (make_reader env path debugOutput decodeSpectra w) = Inr (VPtr Null))"
  by (simp add: usb_instrument_def simulated_instrument_def make_reader_def new_expr_def
           new_nothrow_expr_def split: option.splits prod.splits sum.splits)

theorem instrument_factories_never_null_witness:
  "operator_new strict_env USBInstrument w_full = None
   \<and> operator_new strict_env SimulatedInstrument w_full = None
   \<and> operator_new strict_env DataReader w_full = None
   \<and> fst (usb_instrument strict_env w_full) = Inl BadAlloc
   \<and> fst (simulated_instrument strict_env ''recorded'' w_full) = Inl BadAlloc
   \<and> fst (make_reader strict_env ''run1.datx'' False False w_full) = Inr (VPtr Null)"
  using instrument_factories_never_null
          [of strict_env w_full "''recorded''" "''run1.datx''" False False]
  by (simp add: sample_defs)

end
